theory Spec2Isabelle
  imports Complex_Main
begin

section \<open>Numbers of the Go program\<close>

text \<open>
  The package computes with Go's \<^verbatim>\<open>float64\<close> and \<^verbatim>\<open>complex128\<close>. A \<open>float64\<close> is
  modelled by its class: a finite number, one of the two infinities, or not-a-number.
  The arithmetic on finite numbers is exact real arithmetic: rounding, overflow to an
  infinity and the sign of zero are not modelled (a zero divisor counts as \<open>+0\<close>).
  The special values follow IEEE 754 as Go implements it: \<open>x / 0\<close> is an infinity for
  \<open>x \<noteq> 0\<close> and not-a-number for \<open>x = 0\<close>, every ordered comparison with not-a-number
  is false, and so on. Go's \<^verbatim>\<open>int\<close> is modelled by \<open>int\<close>: the panel counts and
  indices of this package stay far below \<open>2^63\<close>.
\<close>

datatype float64 = Num real | PosInf | NegInf | NaN

definition inf_of_sign :: "real \<Rightarrow> float64" where
  "inf_of_sign s = (if s = 0 then NaN else if 0 < s then PosInf else NegInf)"

fun fneg :: "float64 \<Rightarrow> float64" where
  "fneg (Num a) = Num (- a)"
| "fneg PosInf = NegInf"
| "fneg NegInf = PosInf"
| "fneg NaN = NaN"

fun fadd :: "float64 \<Rightarrow> float64 \<Rightarrow> float64" where
  "fadd (Num a) (Num b) = Num (a + b)"
| "fadd NaN _ = NaN"
| "fadd _ NaN = NaN"
| "fadd PosInf NegInf = NaN"
| "fadd NegInf PosInf = NaN"
| "fadd PosInf _ = PosInf"
| "fadd _ PosInf = PosInf"
| "fadd NegInf _ = NegInf"
| "fadd _ NegInf = NegInf"

definition fsub :: "float64 \<Rightarrow> float64 \<Rightarrow> float64" where
  "fsub x y = fadd x (fneg y)"

fun fmul :: "float64 \<Rightarrow> float64 \<Rightarrow> float64" where
  "fmul (Num a) (Num b) = Num (a * b)"
| "fmul NaN _ = NaN"
| "fmul _ NaN = NaN"
| "fmul (Num a) PosInf = inf_of_sign a"
| "fmul (Num a) NegInf = inf_of_sign (- a)"
| "fmul PosInf (Num b) = inf_of_sign b"
| "fmul NegInf (Num b) = inf_of_sign (- b)"
| "fmul PosInf PosInf = PosInf"
| "fmul NegInf NegInf = PosInf"
| "fmul PosInf NegInf = NegInf"
| "fmul NegInf PosInf = NegInf"

fun fdiv :: "float64 \<Rightarrow> float64 \<Rightarrow> float64" where
  "fdiv (Num a) (Num b) = (if b = 0 then inf_of_sign a else Num (a / b))"
| "fdiv NaN _ = NaN"
| "fdiv _ NaN = NaN"
| "fdiv (Num a) PosInf = Num 0"
| "fdiv (Num a) NegInf = Num 0"
| "fdiv PosInf (Num b) = (if 0 \<le> b then PosInf else NegInf)"
| "fdiv NegInf (Num b) = (if 0 \<le> b then NegInf else PosInf)"
| "fdiv PosInf PosInf = NaN"
| "fdiv PosInf NegInf = NaN"
| "fdiv NegInf PosInf = NaN"
| "fdiv NegInf NegInf = NaN"

text \<open>The comparisons \<^verbatim>\<open>==\<close>, \<^verbatim>\<open><\<close>, \<^verbatim>\<open><=\<close>; \<^verbatim>\<open>>\<close> and \<^verbatim>\<open>>=\<close> are these with the
  arguments exchanged, and \<^verbatim>\<open>!=\<close> is the negation of \<^verbatim>\<open>==\<close>.\<close>

definition feq :: "float64 \<Rightarrow> float64 \<Rightarrow> bool" where
  "feq x y = (x \<noteq> NaN \<and> x = y)"

fun flt :: "float64 \<Rightarrow> float64 \<Rightarrow> bool" where
  "flt (Num a) (Num b) = (a < b)"
| "flt NaN _ = False"
| "flt _ NaN = False"
| "flt _ NegInf = False"
| "flt NegInf _ = True"
| "flt PosInf _ = False"
| "flt _ PosInf = True"

definition fle :: "float64 \<Rightarrow> float64 \<Rightarrow> bool" where
  "fle x y = (flt x y \<or> feq x y)"

definition fgt :: "float64 \<Rightarrow> float64 \<Rightarrow> bool" where
  "fgt x y = flt y x"

definition fge :: "float64 \<Rightarrow> float64 \<Rightarrow> bool" where
  "fge x y = fle y x"

text \<open>\<^verbatim>\<open>math.Abs\<close>, \<^verbatim>\<open>math.Tanh\<close>, \<^verbatim>\<open>math.Exp\<close>, \<^verbatim>\<open>math.Sqrt\<close> and \<^verbatim>\<open>math.IsInf\<close>.\<close>

fun fabs :: "float64 \<Rightarrow> float64" where
  "fabs (Num a) = Num \<bar>a\<bar>"
| "fabs PosInf = PosInf"
| "fabs NegInf = PosInf"
| "fabs NaN = NaN"

fun ftanh :: "float64 \<Rightarrow> float64" where
  "ftanh (Num a) = Num (tanh a)"
| "ftanh PosInf = Num 1"
| "ftanh NegInf = Num (- 1)"
| "ftanh NaN = NaN"

fun fexp :: "float64 \<Rightarrow> float64" where
  "fexp (Num a) = Num (exp a)"
| "fexp PosInf = PosInf"
| "fexp NegInf = Num 0"
| "fexp NaN = NaN"

fun fsqrt :: "float64 \<Rightarrow> float64" where
  "fsqrt (Num a) = (if a < 0 then NaN else Num (sqrt a))"
| "fsqrt PosInf = PosInf"
| "fsqrt NegInf = NaN"
| "fsqrt NaN = NaN"

definition IsInf :: "float64 \<Rightarrow> int \<Rightarrow> bool" where
  "IsInf f sign =
     (if 0 < sign then f = PosInf
      else if sign < 0 then f = NegInf
      else (f = PosInf \<or> f = NegInf))"

text \<open>A \<^verbatim>\<open>complex128\<close> is a pair of \<open>float64\<close>; sum and product are the componentwise
  formulas the Go compiler emits.\<close>

type_synonym complex128 = "float64 \<times> float64"

definition complex_of :: "float64 \<Rightarrow> float64 \<Rightarrow> complex128" where
  "complex_of re im = (re, im)"

definition real_part :: "complex128 \<Rightarrow> float64" where
  "real_part z = fst z"


definition cadd :: "complex128 \<Rightarrow> complex128 \<Rightarrow> complex128" where
  "cadd x y = (fadd (fst x) (fst y), fadd (snd x) (snd y))"

definition cmul :: "complex128 \<Rightarrow> complex128 \<Rightarrow> complex128" where
  "cmul x y =
     (fsub (fmul (fst x) (fst y)) (fmul (snd x) (snd y)),
      fadd (fmul (fst x) (snd y)) (fmul (snd x) (fst y)))"

definition czero :: complex128 where
  "czero = (Num 0, Num 0)"

text \<open>The embedding of a finite complex number, used to state results.\<close>

definition c128 :: "complex \<Rightarrow> complex128" where
  "c128 z = (Num (Re z), Num (Im z))"

section \<open>Errors, panics and matrices\<close>

text \<open>
  A Go function of this package returns its values or an \<^verbatim>\<open>error\<close>; a library call or an
  index out of range may also panic. The two error constructors are the two ways the
  package builds an error: \<^verbatim>\<open>errors.New(msg)\<close> and
  \<^verbatim>\<open>&GreenFunctionEvaluationError{msg}\<close>.
\<close>

datatype error = ErrorsNew string | GreenFunctionEvaluationError string

datatype 'a result = Ok 'a | Err error | Panic string

definition is_err :: "'a result \<Rightarrow> bool" where
  "is_err r = (case r of Err _ \<Rightarrow> True | _ \<Rightarrow> False)"

text \<open>
  \<^verbatim>\<open>mat.Dense\<close> and \<^verbatim>\<open>mat.CDense\<close> of gonum: the dimensions and the row-major data.
  The constructors \<^verbatim>\<open>mat.NewDense(r, c, nil)\<close> and \<^verbatim>\<open>mat.NewCDense(r, c, nil)\<close> panic
  on a dimension that is not positive and otherwise allocate \<open>r * c\<close> zeros.
\<close>

record dense =
  d_rows :: int
  d_cols :: int
  d_data :: "float64 list"

record cdense =
  c_rows :: int
  c_cols :: int
  c_data :: "complex128 list"

definition NewDense :: "int \<Rightarrow> int \<Rightarrow> dense result" where
  "NewDense r c =
     (if r \<le> 0 \<or> c \<le> 0 then
        (if r = 0 \<or> c = 0 then Panic ''mat: zero length in matrix dimension''
         else Panic ''mat: negative dimension'')
      else Ok \<lparr>d_rows = r, d_cols = c, d_data = replicate (nat (r * c)) (Num 0)\<rparr>)"

definition NewCDense :: "int \<Rightarrow> int \<Rightarrow> cdense result" where
  "NewCDense r c =
     (if r \<le> 0 \<or> c \<le> 0 then
        (if r = 0 \<or> c = 0 then Panic ''mat: zero length in matrix dimension''
         else Panic ''mat: negative dimension'')
      else Ok \<lparr>c_rows = r, c_cols = c, c_data = replicate (nat (r * c)) czero\<rparr>)"

text \<open>\<^verbatim>\<open>CDense.At(i, j)\<close>: the entry, with gonum's bounds panics.\<close>

definition At :: "cdense \<Rightarrow> int \<Rightarrow> int \<Rightarrow> complex128 result" where
  "At m i j =
     (if i < 0 \<or> c_rows m \<le> i then Panic ''mat: row index out of range''
      else if j < 0 \<or> c_cols m \<le> j then Panic ''mat: column index out of range''
      else Ok (c_data m ! nat (i * c_cols m + j)))"

section \<open>Matrix assembly\<close>

text \<open>\<^verbatim>\<open>ValidateMatrixDimensions\<close>: \<open>None\<close> is Go's \<^verbatim>\<open>nil\<close> error.\<close>

definition ValidateMatrixDimensions :: "int \<Rightarrow> int \<Rightarrow> error option" where
  "ValidateMatrixDimensions rows cols =
     (if rows \<le> 0 \<or> cols \<le> 0 then
        Some (GreenFunctionEvaluationError ''Matrix dimensions must be positive'')
      else if rows > 1000000 \<or> cols > 1000000 then
        Some (GreenFunctionEvaluationError ''Matrix dimensions too large'')
      else None)"

text \<open>\<^verbatim>\<open>BaseGreenFunction.initMatrices\<close>: two allocations, the second of width
  \<open>cols * kCols\<close>; the error it returns is always \<^verbatim>\<open>nil\<close>.\<close>

definition initMatrices :: "int \<Rightarrow> int \<Rightarrow> bool \<Rightarrow> (cdense \<times> cdense) result" where
  "initMatrices rows cols earlyDotProduct =
     (case NewCDense rows cols of
        Panic p \<Rightarrow> Panic p
      | Err e \<Rightarrow> Err e
      | Ok S \<Rightarrow>
          (let kCols = (if earlyDotProduct then 1 else 3) in
           case NewCDense rows (cols * kCols) of
             Panic p \<Rightarrow> Panic p
           | Err e \<Rightarrow> Err e
           | Ok K \<Rightarrow> Ok (S, K)))"

text \<open>
  The two mesh arguments of \<^verbatim>\<open>Evaluate\<close> have the static type \<^verbatim>\<open>interface{}\<close>. The
  code distinguishes three dynamic types: a value that implements \<^verbatim>\<open>MeshLike\<close> (given
  by what its three methods return), a \<^verbatim>\<open>*mat.Dense\<close> point array, and anything else.
\<close>

record mesh =
  GetFacesCenters :: dense
  GetFacesNormals :: dense
  GetNbFaces :: int

datatype dyn = MeshLike mesh | PointArray dense | Other

definition bind :: "'a result \<Rightarrow> ('a \<Rightarrow> 'b result) \<Rightarrow> 'b result" where
  "bind r f = (case r of Ok x \<Rightarrow> f x | Err e \<Rightarrow> Err e | Panic p \<Rightarrow> Panic p)"

text \<open>\<^verbatim>\<open>BaseGreenFunction.getColocationPointsAndNormals\<close>.\<close>

definition getColocationPointsAndNormals :: "dyn \<Rightarrow> dyn \<Rightarrow> bool \<Rightarrow> (dense \<times> dense) result" where
  "getColocationPointsAndNormals mesh1 mesh2 adjointDoubleLayer =
     (case mesh1 of
        MeshLike m1 \<Rightarrow>
          (if \<not> adjointDoubleLayer then
             (case mesh2 of
                MeshLike m2 \<Rightarrow> Ok (GetFacesCenters m1, GetFacesNormals m2)
              | _ \<Rightarrow> Err (ErrorsNew
                  ''mesh2 must implement MeshLike interface when mesh1 is MeshLike''))
           else Ok (GetFacesCenters m1, GetFacesNormals m1))
      | PointArray m1 \<Rightarrow>
          (if d_cols m1 \<noteq> 3 then
             Err (ErrorsNew ''point array must have 3 columns (x, y, z coordinates)'')
           else if \<not> adjointDoubleLayer then
             (case mesh2 of
                MeshLike m2 \<Rightarrow> Ok (m1, GetFacesNormals m2)
              | _ \<Rightarrow> Err (ErrorsNew
                  ''mesh2 must implement MeshLike interface when mesh1 is point array''))
           else bind (NewDense (d_rows m1) 3) (\<lambda>normals. Ok (m1, normals)))
      | Other \<Rightarrow>
          Err (ErrorsNew ''unrecognized first input type for Green function evaluation''))"

text \<open>
  The four \<^verbatim>\<open>Evaluate\<close> methods share, word for word, the block that determines the
  matrix dimensions and allocates: \<open>rows\<close> keeps Go's zero value when \<open>mesh1\<close> is neither
  kind of input, and a \<open>mesh2\<close> that is not \<^verbatim>\<open>MeshLike\<close> is an error.
\<close>

definition dimensions_and_init :: "dyn \<Rightarrow> dyn \<Rightarrow> bool \<Rightarrow> (cdense \<times> cdense) result" where
  "dimensions_and_init mesh1 mesh2 earlyDotProduct =
     (let rows = (case mesh1 of
                    MeshLike meshLike1 \<Rightarrow> GetNbFaces meshLike1
                  | PointArray pointArray \<Rightarrow> d_rows pointArray
                  | Other \<Rightarrow> 0)
      in case mesh2 of
           MeshLike meshLike2 \<Rightarrow> initMatrices rows (GetNbFaces meshLike2) earlyDotProduct
         | _ \<Rightarrow> Err (GreenFunctionEvaluationError ''mesh2 must implement MeshLike interface''))"

section \<open>The kernel strategies\<close>

text \<open>\<^verbatim>\<open>Delhommeau.Evaluate\<close> and \<^verbatim>\<open>HAMS.Evaluate\<close> read nothing of their receiver, and
  discard the collocation data and the physical parameters.\<close>

definition Delhommeau_Evaluate ::
  "dyn \<Rightarrow> dyn \<Rightarrow> float64 \<Rightarrow> float64 \<Rightarrow> complex128 \<Rightarrow> bool \<Rightarrow> bool \<Rightarrow> (cdense \<times> cdense) result" where
  "Delhommeau_Evaluate mesh1 mesh2 freeSurface waterDepth wavenumber adjointDoubleLayer earlyDotProduct =
     bind (getColocationPointsAndNormals mesh1 mesh2 adjointDoubleLayer)
       (\<lambda>_. dimensions_and_init mesh1 mesh2 earlyDotProduct)"

definition HAMS_Evaluate ::
  "dyn \<Rightarrow> dyn \<Rightarrow> float64 \<Rightarrow> float64 \<Rightarrow> complex128 \<Rightarrow> bool \<Rightarrow> bool \<Rightarrow> (cdense \<times> cdense) result" where
  "HAMS_Evaluate mesh1 mesh2 freeSurface waterDepth wavenumber adjointDoubleLayer earlyDotProduct =
     bind (getColocationPointsAndNormals mesh1 mesh2 adjointDoubleLayer)
       (\<lambda>_. dimensions_and_init mesh1 mesh2 earlyDotProduct)"

text \<open>\<^verbatim>\<open>LiangWuNoblesseGF.Evaluate\<close>: the domain check comes first; the singularity index
  chosen from the wave number is discarded.\<close>

definition LiangWuNoblesseGF_Evaluate ::
  "dyn \<Rightarrow> dyn \<Rightarrow> float64 \<Rightarrow> float64 \<Rightarrow> complex128 \<Rightarrow> bool \<Rightarrow> bool \<Rightarrow> (cdense \<times> cdense) result" where
  "LiangWuNoblesseGF_Evaluate mesh1 mesh2 freeSurface waterDepth wavenumber adjointDoubleLayer earlyDotProduct =
     (if IsInf freeSurface 1 \<or> \<not> IsInf waterDepth 1 then
        Err (ErrorsNew
          ''LiangWuNoblesseGF is only implemented for infinite depth with a free surface'')
      else
        bind (getColocationPointsAndNormals mesh1 mesh2 adjointDoubleLayer)
          (\<lambda>_. dimensions_and_init mesh1 mesh2 earlyDotProduct))"

text \<open>\<^verbatim>\<open>FinGreen3D\<close> keeps the water depth, the wave number and the dispersion roots.\<close>

record fingreen3d =
  waterDepth :: float64
  waveNumber :: complex128
  dispersionRoots :: "complex128 list"

text \<open>The loop \<^verbatim>\<open>for n := 1; n <= 10; n++\<close> of \<^verbatim>\<open>computeDispersionRoots\<close>.\<close>

function roots_loop :: "float64 \<Rightarrow> nat \<Rightarrow> complex128 list \<Rightarrow> complex128 list" where
  "roots_loop h n roots =
     (if n \<le> 10 then
        (let kn = complex_of (Num 0) (fdiv (fmul (Num (real n)) (Num pi)) h)
         in roots_loop h (n + 1) (roots @ [kn]))
      else roots)"
  by pat_completeness auto
termination
  by (relation "measure (\<lambda>(h, n, roots). 11 - n)") auto

declare roots_loop.simps [simp del]

definition computeDispersionRoots :: "fingreen3d \<Rightarrow> complex128 \<Rightarrow> complex128 list result" where
  "computeDispersionRoots fg wavenumber =
     (let k0 = wavenumber;
          roots = [k0]
      in Ok (if \<not> IsInf (waterDepth fg) 1 then roots_loop (waterDepth fg) 1 roots else roots))"

text \<open>\<^verbatim>\<open>SetWaveNumber\<close> returns the updated receiver beside its error (\<open>Ok ()\<close> for
  \<^verbatim>\<open>nil\<close>).\<close>

definition SetWaveNumber :: "fingreen3d \<Rightarrow> complex128 \<Rightarrow> fingreen3d \<times> unit result" where
  "SetWaveNumber fg wavenumber =
     (let fg1 = fg\<lparr>waveNumber := wavenumber\<rparr>
      in case computeDispersionRoots fg1 wavenumber of
           Ok roots \<Rightarrow> (fg1\<lparr>dispersionRoots := roots\<rparr>, Ok ())
         | Err e \<Rightarrow> (fg1, Err e)
         | Panic p \<Rightarrow> (fg1, Panic p))"

text \<open>\<^verbatim>\<open>FinGreen3D.Evaluate\<close> returns the updated receiver beside its result. Its parameter
  \<^verbatim>\<open>waterDepth\<close> is \<open>wd\<close> here, the field of the receiver having that name.\<close>

definition FinGreen3D_Evaluate ::
  "fingreen3d \<Rightarrow> dyn \<Rightarrow> dyn \<Rightarrow> float64 \<Rightarrow> float64 \<Rightarrow> complex128 \<Rightarrow> bool \<Rightarrow> bool
     \<Rightarrow> fingreen3d \<times> (cdense \<times> cdense) result" where
  "FinGreen3D_Evaluate fg mesh1 mesh2 freeSurface wd wavenumber adjointDoubleLayer earlyDotProduct =
     (let fg1 = (if \<not> feq wd (waterDepth fg) then fg\<lparr>waterDepth := wd\<rparr> else fg);
          (fg2, err) = SetWaveNumber fg1 wavenumber
      in (fg2,
          bind err (\<lambda>_.
          bind (getColocationPointsAndNormals mesh1 mesh2 adjointDoubleLayer) (\<lambda>_.
          dimensions_and_init mesh1 mesh2 earlyDotProduct))))"

text \<open>
  The interface \<^verbatim>\<open>AbstractGreenFunction\<close> with its four implementations: a call of
  \<^verbatim>\<open>Evaluate\<close> dispatches on the strategy. Only \<^verbatim>\<open>FinGreen3D\<close> has state that
  \<^verbatim>\<open>Evaluate\<close> touches; \<open>Evaluate\<close> gives the matrices or the failure.
\<close>

datatype green_function = Delhommeau | FinGreen3D fingreen3d | LiangWuNoblesseGF | HAMS

definition Evaluate ::
  "green_function \<Rightarrow> dyn \<Rightarrow> dyn \<Rightarrow> float64 \<Rightarrow> float64 \<Rightarrow> complex128 \<Rightarrow> bool \<Rightarrow> bool
     \<Rightarrow> (cdense \<times> cdense) result" where
  "Evaluate gf mesh1 mesh2 freeSurface wd wavenumber adjointDoubleLayer earlyDotProduct =
     (case gf of
        Delhommeau \<Rightarrow>
          Delhommeau_Evaluate mesh1 mesh2 freeSurface wd wavenumber adjointDoubleLayer earlyDotProduct
      | FinGreen3D fg \<Rightarrow>
          snd (FinGreen3D_Evaluate fg mesh1 mesh2 freeSurface wd wavenumber adjointDoubleLayer earlyDotProduct)
      | LiangWuNoblesseGF \<Rightarrow>
          LiangWuNoblesseGF_Evaluate mesh1 mesh2 freeSurface wd wavenumber adjointDoubleLayer earlyDotProduct
      | HAMS \<Rightarrow>
          HAMS_Evaluate mesh1 mesh2 freeSurface wd wavenumber adjointDoubleLayer earlyDotProduct)"

text \<open>\<^verbatim>\<open>NewMockMesh\<close> of the package's tests: a mesh from its centers and normals.\<close>

definition NewMockMesh :: "real list list \<Rightarrow> real list list \<Rightarrow> mesh" where
  "NewMockMesh centers normals =
     (let nFaces = int (length centers)
      in \<lparr>GetFacesCenters = \<lparr>d_rows = nFaces, d_cols = 3, d_data = map Num (concat centers)\<rparr>,
          GetFacesNormals = \<lparr>d_rows = nFaces, d_cols = 3, d_data = map Num (concat normals)\<rparr>,
          GetNbFaces = nFaces\<rparr>)"

text \<open>The number of panels of a mesh argument, or of evaluation points of a point array.\<close>

definition panelCount :: "dyn \<Rightarrow> int" where
  "panelCount m =
     (case m of MeshLike ml \<Rightarrow> GetNbFaces ml | PointArray pa \<Rightarrow> d_rows pa | Other \<Rightarrow> 0)"

text \<open>The error of the domain check of \<^verbatim>\<open>LiangWuNoblesseGF.Evaluate\<close>.\<close>

definition domainConstraintError :: error where
  "domainConstraintError =
     ErrorsNew ''LiangWuNoblesseGF is only implemented for infinite depth with a free surface''"

text \<open>\<^verbatim>\<open>RankineSource\<close> of the utilities, and \<^verbatim>\<open>FinGreen3D.computeInfiniteDepthGF\<close>.\<close>

definition RankineSource :: "float64 \<Rightarrow> float64" where
  "RankineSource r = (if feq r (Num 0) then PosInf else fdiv (Num 1) r)"

definition computeInfiniteDepthGF ::
  "fingreen3d \<Rightarrow> float64 \<Rightarrow> float64 \<Rightarrow> float64 \<Rightarrow> complex128 result" where
  "computeInfiniteDepthGF fg rr zf zp =
     (let r = fsqrt (fadd (fmul rr rr) (fmul (fsub zf zp) (fsub zf zp)));
          rPrime = fsqrt (fadd (fmul rr rr) (fmul (fadd zf zp) (fadd zf zp)));
          rankine = fadd (fdiv (Num 1) r) (fdiv (Num 1) rPrime);
          k = real_part (waveNumber fg)
      in if feq k (Num 0) then Ok (complex_of rankine (Num 0))
         else
           (let waveHeight = fmul k (fadd zf zp);
                wavePart =
                  (if fgt waveHeight (Num (- 10)) then
                     complex_of (fmul (fmul (Num 2) k) (fexp waveHeight)) (Num 0)
                   else complex_of (Num 0) (Num 0))
            in Ok (cadd (complex_of rankine (Num 0)) wavePart)))"

section \<open>The dispersion solver\<close>

definition Gravity :: float64 where
  "Gravity = Num (981 / 100)"

text \<open>
  The Newton loop \<^verbatim>\<open>for i := 0; i < 100; i++\<close> of \<^verbatim>\<open>ComputeWaveNumber\<close>. Beside the
  value of \<open>k\<close> with which it ends, the model records through which of its three exits
  the loop ended: the degenerate derivative, the small step, or the exhausted counter.
  The parameter \<^verbatim>\<open>waterDepth\<close> is \<open>h\<close> here.
\<close>

datatype loop_exit = Degenerate | Converged | Exhausted

function newton_loop :: "float64 \<Rightarrow> float64 \<Rightarrow> nat \<Rightarrow> float64 \<Rightarrow> float64 \<times> loop_exit" where
  "newton_loop v h i k =
     (if i < 100 then
        (let tanh_kh = ftanh (fmul k h);
             sech2_kh = fsub (Num 1) (fmul tanh_kh tanh_kh);
             f = fsub (fmul k tanh_kh) v;
             df = fadd tanh_kh (fmul (fmul k h) sech2_kh)
         in if flt (fabs df) (Num (1 / 10 ^ 15)) then (k, Degenerate)
            else
              (let k_new = fsub k (fdiv f df)
               in if flt (fabs (fsub k_new k)) (Num (1 / 10 ^ 12)) then (k, Converged)
                  else newton_loop v h (i + 1) k_new))
      else (k, Exhausted))"
  by pat_completeness auto
termination
  by (relation "measure (\<lambda>(v, h, i, k). 100 - i)") auto

declare newton_loop.simps [simp del]

definition ComputeWaveNumber :: "float64 \<Rightarrow> float64 \<Rightarrow> complex128" where
  "ComputeWaveNumber omega h =
     (if IsInf h 1 then
        (let k = fdiv (fmul omega omega) Gravity in complex_of k (Num 0))
      else
        (let v = fdiv (fmul omega omega) Gravity;
             k = v
         in complex_of (fst (newton_loop v h 0 k)) (Num 0)))"

text \<open>
  The Newton-Raphson scheme in the words of the specification, on real numbers:
  \<open>f(k) = k tanh(k h) - v\<close>, \<open>f'(k) = tanh(k h) + k h (1 - tanh\<^sup>2(k h))\<close>, the step
  \<open>k - f(k) / f'(k)\<close>, the iterates from \<open>k\<^sub>0 = v\<close>, and the stopping test at an iterate.
  The scheme returns the first of the iterates \<open>k\<^sub>0 \<dots> k\<^sub>9\<^sub>9\<close> at which the stopping
  test holds, and \<open>k\<^sub>1\<^sub>0\<^sub>0\<close> when it holds at none.
\<close>

definition spec_f :: "real \<Rightarrow> real \<Rightarrow> real \<Rightarrow> real" where
  "spec_f v h k = k * tanh (k * h) - v"

definition spec_df :: "real \<Rightarrow> real \<Rightarrow> real" where
  "spec_df h k = tanh (k * h) + k * h * (1 - (tanh (k * h))\<^sup>2)"

definition spec_step :: "real \<Rightarrow> real \<Rightarrow> real \<Rightarrow> real" where
  "spec_step v h k = k - spec_f v h k / spec_df h k"

definition spec_iterate :: "real \<Rightarrow> real \<Rightarrow> nat \<Rightarrow> real" where
  "spec_iterate v h n = (spec_step v h ^^ n) v"

definition spec_stop :: "real \<Rightarrow> real \<Rightarrow> real \<Rightarrow> bool" where
  "spec_stop v h k \<longleftrightarrow> \<bar>spec_df h k\<bar> < 1 / 10 ^ 15 \<or> \<bar>spec_step v h k - k\<bar> < 1 / 10 ^ 12"

definition spec_root :: "real \<Rightarrow> real \<Rightarrow> real" where
  "spec_root v h =
     (case find (\<lambda>n. spec_stop v h (spec_iterate v h n)) [0..<100] of
        Some n \<Rightarrow> spec_iterate v h n
      | None \<Rightarrow> spec_iterate v h 100)"

section \<open>The tabulation cache\<close>

text \<open>\<^verbatim>\<open>FloatingPointPrecision\<close> is a string type; the struct is as declared.\<close>

type_synonym FloatingPointPrecision = string

record TabulationCache =
  RRange :: "float64 list"
  ZRange :: "float64 list"
  Values :: "complex128 list list"
  IsValid :: bool
  Precision :: FloatingPointPrecision

definition NewTabulationCache ::
  "float64 list \<Rightarrow> float64 list \<Rightarrow> FloatingPointPrecision \<Rightarrow> TabulationCache" where
  "NewTabulationCache rRange zRange precision =
     (let rows = length zRange;
          cols = length rRange
      in \<lparr>RRange = rRange, ZRange = zRange, Values = replicate rows (replicate cols czero),
          IsValid = False, Precision = precision\<rparr>)"

text \<open>Indexing a slice panics outside its bounds.\<close>

definition index :: "'a list \<Rightarrow> int \<Rightarrow> 'a result" where
  "index xs i =
     (if 0 \<le> i \<and> i < int (length xs) then Ok (xs ! nat i) else Panic ''index out of range'')"

text \<open>\<^verbatim>\<open>findIndex\<close>: the loop \<^verbatim>\<open>for i := 0; i < len(arr)-1; i++\<close>, whose two reads are
  within bounds by the loop condition.\<close>

function findIndex_loop :: "float64 list \<Rightarrow> float64 \<Rightarrow> nat \<Rightarrow> int" where
  "findIndex_loop arr val i =
     (if int i < int (length arr) - 1 then
        (if fge val (arr ! i) \<and> fle val (arr ! (i + 1)) then int i
         else findIndex_loop arr val (i + 1))
      else - 1)"
  by pat_completeness auto
termination
  by (relation "measure (\<lambda>(arr, val, i). length arr - i)") auto

declare findIndex_loop.simps [simp del]

definition findIndex :: "float64 list \<Rightarrow> float64 \<Rightarrow> int" where
  "findIndex arr val = findIndex_loop arr val 0"

definition Interpolate :: "TabulationCache \<Rightarrow> float64 \<Rightarrow> float64 \<Rightarrow> complex128 result" where
  "Interpolate tc r z =
     (if \<not> IsValid tc then
        Err (GreenFunctionEvaluationError ''Tabulation cache is not valid'')
      else
        (let rIdx = findIndex (RRange tc) r;
             zIdx = findIndex (ZRange tc) z
         in if rIdx < 0 \<or> rIdx \<ge> int (length (RRange tc)) - 1
               \<or> zIdx < 0 \<or> zIdx \<ge> int (length (ZRange tc)) - 1 then
              Err (GreenFunctionEvaluationError ''Point outside tabulation range'')
            else
              bind (index (RRange tc) rIdx) (\<lambda>r1.
              bind (index (RRange tc) (rIdx + 1)) (\<lambda>r2.
              bind (index (ZRange tc) zIdx) (\<lambda>z1.
              bind (index (ZRange tc) (zIdx + 1)) (\<lambda>z2.
              (let fr = fdiv (fsub r r1) (fsub r2 r1);
                   fz = fdiv (fsub z z1) (fsub z2 z1)
               in bind (bind (index (Values tc) zIdx) (\<lambda>row. index row rIdx)) (\<lambda>v11.
                  bind (bind (index (Values tc) (zIdx + 1)) (\<lambda>row. index row rIdx)) (\<lambda>v12.
                  bind (bind (index (Values tc) zIdx) (\<lambda>row. index row (rIdx + 1))) (\<lambda>v21.
                  bind (bind (index (Values tc) (zIdx + 1)) (\<lambda>row. index row (rIdx + 1))) (\<lambda>v22.
                  (let v1 = cadd (cmul v11 (complex_of (fsub (Num 1) fr) (Num 0)))
                                 (cmul v21 (complex_of fr (Num 0)));
                       v2 = cadd (cmul v12 (complex_of (fsub (Num 1) fr) (Num 0)))
                                 (cmul v22 (complex_of fr (Num 0)));
                       result = cadd (cmul v1 (complex_of (fsub (Num 1) fz) (Num 0)))
                                     (cmul v2 (complex_of fz (Num 0)))
                   in Ok result))))))))))))"

text \<open>The invariant of the data model: the value grid has one row for each \<open>z\<close>
  coordinate and one column for each \<open>r\<close> coordinate.\<close>

definition grid_shape :: "TabulationCache \<Rightarrow> bool" where
  "grid_shape tc \<longleftrightarrow>
     length (Values tc) = length (ZRange tc)
     \<and> list_all (\<lambda>row. length row = length (RRange tc)) (Values tc)"

text \<open>The test of \<^verbatim>\<open>findIndex\<close> at one index: \<^verbatim>\<open>val >= arr[i] && val <= arr[i+1]\<close>.\<close>

definition bracket :: "float64 list \<Rightarrow> float64 \<Rightarrow> nat \<Rightarrow> bool" where
  "bracket arr val i \<longleftrightarrow> fge val (arr ! i) \<and> fle val (arr ! (i + 1))"

text \<open>The blend that \<^verbatim>\<open>Interpolate\<close> computes from the bracketing coordinates and the four
  corner values, by itself.\<close>

definition blend ::
  "float64 \<Rightarrow> float64 \<Rightarrow> float64 \<Rightarrow> float64 \<Rightarrow>
   complex128 \<Rightarrow> complex128 \<Rightarrow> complex128 \<Rightarrow> complex128 \<Rightarrow> float64 \<Rightarrow> float64 \<Rightarrow> complex128" where
  "blend r1 r2 z1 z2 v11 v12 v21 v22 r z =
     (let fr = fdiv (fsub r r1) (fsub r2 r1);
          fz = fdiv (fsub z z1) (fsub z2 z1);
          v1 = cadd (cmul v11 (complex_of (fsub (Num 1) fr) (Num 0)))
                    (cmul v21 (complex_of fr (Num 0)));
          v2 = cadd (cmul v12 (complex_of (fsub (Num 1) fr) (Num 0)))
                    (cmul v22 (complex_of fr (Num 0)))
      in cadd (cmul v1 (complex_of (fsub (Num 1) fz) (Num 0)))
              (cmul v2 (complex_of fz (Num 0))))"

text \<open>The cache of the package's test \<^verbatim>\<open>TestTabulationCache_Interpolate_Valid\<close>.\<close>

definition testCache :: TabulationCache where
  "testCache =
     (NewTabulationCache [Num 0, Num 1, Num 2] [Num (- 2), Num (- 1), Num 0] ''float64'')
       \<lparr>IsValid := True,
        Values := [[c128 1, c128 2, czero], [c128 3, c128 4, czero], [czero, czero, czero]]\<rparr>"

section \<open>Properties of the matrix assembly\<close>

lemma ValidateMatrixDimensions_rejects:
  "ValidateMatrixDimensions rows cols \<noteq> None \<longleftrightarrow>
     rows \<le> 0 \<or> cols \<le> 0 \<or> rows > 1000000 \<or> cols > 1000000"
  by (simp add: ValidateMatrixDimensions_def)

lemma initMatrices_never_Err: "initMatrices rows cols e \<noteq> Err x"
  by (simp add: initMatrices_def NewCDense_def Let_def)

text \<open>
  C1. \<^verbatim>\<open>initMatrices\<close> is to fail with a dimension error when a dimension is not
  positive or exceeds 1,000,000. The code does not: it never calls
  \<^verbatim>\<open>ValidateMatrixDimensions\<close>, which rejects exactly these dimensions, and it never
  returns an error. For 2,000,000 rows and one column it returns the two matrices; on a
  dimension that is not positive the constructor of the matrix library panics.
\<close>

theorem initMatrices_oversized_returns_matrices:
  "ValidateMatrixDimensions 2000000 1 \<noteq> None \<and>
   initMatrices 2000000 1 True =
     Ok (\<lparr>c_rows = 2000000, c_cols = 1, c_data = replicate 2000000 czero\<rparr>,
         \<lparr>c_rows = 2000000, c_cols = 1, c_data = replicate 2000000 czero\<rparr>)"
  by (simp add: ValidateMatrixDimensions_def initMatrices_def NewCDense_def)

section \<open>Properties of the kernel strategies\<close>

lemma bind_Ok_iff: "bind r f = Ok y \<longleftrightarrow> (\<exists>x. r = Ok x \<and> f x = Ok y)"
  by (cases r) (simp_all add: bind_def)

lemma initMatrices_Ok:
  assumes "initMatrices rows cols e = Ok (S, K)"
  shows "0 < rows \<and> 0 < cols
    \<and> S = \<lparr>c_rows = rows, c_cols = cols, c_data = replicate (nat (rows * cols)) czero\<rparr>
    \<and> K = \<lparr>c_rows = rows, c_cols = cols * (if e then 1 else 3),
            c_data = replicate (nat (rows * (cols * (if e then 1 else 3)))) czero\<rparr>"
  using assms
  by (auto simp add: initMatrices_def NewCDense_def Let_def split: if_splits)

lemma dimensions_and_init_Ok:
  assumes "dimensions_and_init mesh1 mesh2 e = Ok (S, K)"
  shows "initMatrices (panelCount mesh1) (panelCount mesh2) e = Ok (S, K)"
  using assms
  by (cases mesh2) (simp_all add: dimensions_and_init_def panelCount_def Let_def)

lemma Evaluate_Ok_init:
  assumes "Evaluate gf mesh1 mesh2 fs wd k adj e = Ok (S, K)"
  shows "initMatrices (panelCount mesh1) (panelCount mesh2) e = Ok (S, K)"
proof (cases gf)
  case Delhommeau
  with assms show ?thesis
    by (auto simp add: Evaluate_def Delhommeau_Evaluate_def bind_Ok_iff dimensions_and_init_Ok)
next
  case (FinGreen3D fg)
  with assms show ?thesis
    by (auto simp add: Evaluate_def FinGreen3D_Evaluate_def Let_def bind_Ok_iff
        dimensions_and_init_Ok split: prod.splits)
next
  case LiangWuNoblesseGF
  with assms show ?thesis
    by (auto simp add: Evaluate_def LiangWuNoblesseGF_Evaluate_def bind_Ok_iff
        dimensions_and_init_Ok split: if_splits)
next
  case HAMS
  with assms show ?thesis
    by (auto simp add: Evaluate_def HAMS_Evaluate_def bind_Ok_iff dimensions_and_init_Ok)
qed

lemma At_zero_matrix:
  assumes "0 \<le> i" "i < r" "0 \<le> j" "j < c"
  shows "At \<lparr>c_rows = r, c_cols = c, c_data = replicate (nat (r * c)) czero\<rparr> i j = Ok czero"
proof -
  have "i * c + j < (i + 1) * c" using assms by (simp add: algebra_simps)
  also have "\<dots> \<le> r * c" using assms by (intro mult_right_mono) auto
  finally have lt: "i * c + j < r * c" .
  have "0 \<le> i * c" using assms by simp
  then have "0 \<le> i * c + j" using assms by linarith
  with lt have "nat (i * c + j) < nat (r * c)" by linarith
  then show ?thesis using assms by (simp add: At_def)
qed

text \<open>
  C2. Whenever \<^verbatim>\<open>Evaluate\<close> of one of the four strategies succeeds, every entry of the
  returned \<open>S\<close> and every entry of the returned \<open>K\<close> is \<open>0 + 0i\<close>: no strategy writes
  to the matrices that \<^verbatim>\<open>initMatrices\<close> allocated.
\<close>

theorem Evaluate_entries_zero:
  assumes "Evaluate gf mesh1 mesh2 freeSurface wd wavenumber adjointDoubleLayer earlyDotProduct = Ok (S, K)"
  shows "(\<forall>i j. 0 \<le> i \<and> i < c_rows S \<and> 0 \<le> j \<and> j < c_cols S \<longrightarrow> At S i j = Ok czero)
       \<and> (\<forall>i j. 0 \<le> i \<and> i < c_rows K \<and> 0 \<le> j \<and> j < c_cols K \<longrightarrow> At K i j = Ok czero)"
proof -
  note init = initMatrices_Ok [OF Evaluate_Ok_init [OF assms]]
  show ?thesis
    using init by (auto simp add: At_zero_matrix)
qed

theorem Evaluate_entries_zero_witness:
  "Evaluate HAMS
     (MeshLike (NewMockMesh [[0, 0, 0], [1, 0, 0]] [[0, 0, 1], [0, 0, 1]]))
     (MeshLike (NewMockMesh [[0, 1, 0], [1, 1, 0]] [[0, 0, 1], [0, 0, 1]]))
     (Num 0) PosInf (Num 1, Num 0) True False
   = Ok (\<lparr>c_rows = 2, c_cols = 2, c_data = replicate 4 czero\<rparr>,
         \<lparr>c_rows = 2, c_cols = 6, c_data = replicate 12 czero\<rparr>)
   \<and> At \<lparr>c_rows = 2, c_cols = 2, c_data = replicate 4 czero\<rparr> 1 1 = Ok czero
   \<and> At \<lparr>c_rows = 2, c_cols = 6, c_data = replicate 12 czero\<rparr> 1 5 = Ok czero"
proof -
  have e: "Evaluate HAMS
     (MeshLike (NewMockMesh [[0, 0, 0], [1, 0, 0]] [[0, 0, 1], [0, 0, 1]]))
     (MeshLike (NewMockMesh [[0, 1, 0], [1, 1, 0]] [[0, 0, 1], [0, 0, 1]]))
     (Num 0) PosInf (Num 1, Num 0) True False
   = Ok (\<lparr>c_rows = 2, c_cols = 2, c_data = replicate 4 czero\<rparr>,
         \<lparr>c_rows = 2, c_cols = 6, c_data = replicate 12 czero\<rparr>)"
    by (simp add: Evaluate_def HAMS_Evaluate_def getColocationPointsAndNormals_def bind_def
        dimensions_and_init_def initMatrices_def NewCDense_def NewMockMesh_def Let_def)
  from Evaluate_entries_zero [OF e] e show ?thesis by simp
qed

text \<open>
  C10. Whenever \<^verbatim>\<open>Evaluate\<close> of one of the four strategies succeeds on a first argument
  of \<open>P1\<close> panels and a second of \<open>P2\<close> panels, \<open>S\<close> is \<open>P1 \<times> P2\<close> and \<open>K\<close> is
  \<open>P1 \<times> (P2 \<cdot> w)\<close> with \<open>w = 1\<close> under the early dot product and \<open>w = 3\<close> otherwise; so
  the row counts agree, the width of \<open>K\<close> is once or three times that of \<open>S\<close>, and both
  hold zeros only, as allocated.
\<close>

theorem Evaluate_dimensions:
  assumes "Evaluate gf mesh1 mesh2 freeSurface wd wavenumber adjointDoubleLayer earlyDotProduct = Ok (S, K)"
  shows "c_rows S = panelCount mesh1 \<and> c_cols S = panelCount mesh2
       \<and> c_rows K = panelCount mesh1
       \<and> c_cols K = panelCount mesh2 * (if earlyDotProduct then 1 else 3)
       \<and> c_rows K = c_rows S
       \<and> c_cols K = c_cols S * (if earlyDotProduct then 1 else 3)
       \<and> c_data S = replicate (nat (c_rows S * c_cols S)) czero
       \<and> c_data K = replicate (nat (c_rows K * c_cols K)) czero"
  using initMatrices_Ok [OF Evaluate_Ok_init [OF assms]] by auto

theorem Evaluate_dimensions_witness:
  "Evaluate (FinGreen3D \<lparr>waterDepth = Num 20, waveNumber = czero, dispersionRoots = []\<rparr>)
     (MeshLike (NewMockMesh [[0, 0, - 5], [1, 0, - 5]] [[0, 0, 1], [0, 0, 1]]))
     (MeshLike (NewMockMesh [[0, 1, - 5], [1, 1, - 5], [2, 1, - 5]] [[0, 0, 1], [0, 0, 1], [0, 0, 1]]))
     (Num 0) (Num 20) (Num 1, Num 0) True False
   = Ok (\<lparr>c_rows = 2, c_cols = 3, c_data = replicate 6 czero\<rparr>,
         \<lparr>c_rows = 2, c_cols = 9, c_data = replicate 18 czero\<rparr>)
   \<and> panelCount (MeshLike (NewMockMesh [[0, 0, - 5], [1, 0, - 5]] [[0, 0, 1], [0, 0, 1]])) = 2
   \<and> panelCount (MeshLike (NewMockMesh [[0, 1, - 5], [1, 1, - 5], [2, 1, - 5]]
        [[0, 0, 1], [0, 0, 1], [0, 0, 1]])) = 3"
proof -
  let ?gf = "FinGreen3D \<lparr>waterDepth = Num 20, waveNumber = czero, dispersionRoots = []\<rparr>"
  let ?m1 = "MeshLike (NewMockMesh [[0, 0, - 5], [1, 0, - 5]] [[0, 0, 1], [0, 0, 1]])"
  let ?m2 = "MeshLike (NewMockMesh [[0, 1, - 5], [1, 1, - 5], [2, 1, - 5]]
        [[0, 0, 1], [0, 0, 1], [0, 0, 1]])"
  have e: "Evaluate ?gf ?m1 ?m2 (Num 0) (Num 20) (Num 1, Num 0) True False
   = Ok (\<lparr>c_rows = 2, c_cols = 3, c_data = replicate 6 czero\<rparr>,
         \<lparr>c_rows = 2, c_cols = 9, c_data = replicate 18 czero\<rparr>)"
    by (simp add: Evaluate_def FinGreen3D_Evaluate_def SetWaveNumber_def computeDispersionRoots_def
        getColocationPointsAndNormals_def bind_def feq_def
        dimensions_and_init_def initMatrices_def NewCDense_def NewMockMesh_def Let_def)
  from Evaluate_dimensions [OF e] e show ?thesis by simp
qed

lemma LiangWuNoblesseGF_check:
  "LiangWuNoblesseGF_Evaluate mesh1 mesh2 fs wd k adj e = Err domainConstraintError
     \<longleftrightarrow> fs = PosInf \<or> wd \<noteq> PosInf"
proof (cases "fs = PosInf \<or> wd \<noteq> PosInf")
  case True
  then show ?thesis
    by (auto simp add: LiangWuNoblesseGF_Evaluate_def IsInf_def domainConstraintError_def)
next
  case False
  have c: "getColocationPointsAndNormals mesh1 mesh2 adj \<noteq> Err domainConstraintError"
    by (simp add: getColocationPointsAndNormals_def domainConstraintError_def bind_def NewDense_def
        split: dyn.split)
  have d: "dimensions_and_init mesh1 mesh2 e \<noteq> Err domainConstraintError"
    by (simp add: dimensions_and_init_def initMatrices_never_Err domainConstraintError_def Let_def
        split: dyn.split)
  have "bind (getColocationPointsAndNormals mesh1 mesh2 adj) (\<lambda>_. dimensions_and_init mesh1 mesh2 e)
          \<noteq> Err domainConstraintError"
    using c d by (cases "getColocationPointsAndNormals mesh1 mesh2 adj") (simp_all add: bind_def)
  with False show ?thesis
    by (simp add: LiangWuNoblesseGF_Evaluate_def IsInf_def)
qed

text \<open>
  C5. For a water depth that is finite or \<open>+\<infinity>\<close>, as the evaluation interface takes it,
  \<^verbatim>\<open>LiangWuNoblesseGF.Evaluate\<close> fails with its domain-constraint error exactly when the
  free surface is \<open>+\<infinity>\<close> or the water depth is finite; otherwise it goes on to the mesh
  extraction and the allocation, from which alone a failure can still come. (The test
  of the code on the depth is that it is not \<open>+\<infinity>\<close>, see \<open>LiangWuNoblesseGF_check\<close>.)
\<close>

theorem LiangWuNoblesseGF_domain_constraint:
  assumes "wd = PosInf \<or> (\<exists>h. wd = Num h)"
  shows "(LiangWuNoblesseGF_Evaluate mesh1 mesh2 freeSurface wd wavenumber adjointDoubleLayer earlyDotProduct
            = Err domainConstraintError
          \<longleftrightarrow> freeSurface = PosInf \<or> (\<exists>h. wd = Num h))
       \<and> (\<not> (freeSurface = PosInf \<or> (\<exists>h. wd = Num h)) \<longrightarrow>
            LiangWuNoblesseGF_Evaluate mesh1 mesh2 freeSurface wd wavenumber adjointDoubleLayer earlyDotProduct
              = bind (getColocationPointsAndNormals mesh1 mesh2 adjointDoubleLayer)
                  (\<lambda>_. dimensions_and_init mesh1 mesh2 earlyDotProduct))"
proof -
  from assms have "wd \<noteq> PosInf \<longleftrightarrow> (\<exists>h. wd = Num h)" by auto
  then show ?thesis
    by (auto simp add: LiangWuNoblesseGF_check) (simp_all add: LiangWuNoblesseGF_Evaluate_def IsInf_def)
qed

theorem LiangWuNoblesseGF_domain_constraint_witness:
  "LiangWuNoblesseGF_Evaluate
     (MeshLike (NewMockMesh [[0, 0, 0], [1, 0, 0]] [[0, 0, 1], [0, 0, 1]]))
     (MeshLike (NewMockMesh [[0, 1, 0], [1, 1, 0]] [[0, 0, 1], [0, 0, 1]]))
     PosInf PosInf (Num 1, Num 0) True True = Err domainConstraintError
   \<and> LiangWuNoblesseGF_Evaluate
     (MeshLike (NewMockMesh [[0, 0, 0], [1, 0, 0]] [[0, 0, 1], [0, 0, 1]]))
     (MeshLike (NewMockMesh [[0, 1, 0], [1, 1, 0]] [[0, 0, 1], [0, 0, 1]]))
     (Num 0) (Num 10) (Num 1, Num 0) True True = Err domainConstraintError
   \<and> LiangWuNoblesseGF_Evaluate
     (MeshLike (NewMockMesh [[0, 0, 0], [1, 0, 0]] [[0, 0, 1], [0, 0, 1]]))
     (MeshLike (NewMockMesh [[0, 1, 0], [1, 1, 0]] [[0, 0, 1], [0, 0, 1]]))
     (Num 0) PosInf (Num 1, Num 0) True True
     = Ok (\<lparr>c_rows = 2, c_cols = 2, c_data = replicate 4 czero\<rparr>,
           \<lparr>c_rows = 2, c_cols = 2, c_data = replicate 4 czero\<rparr>)"
proof -
  let ?m1 = "MeshLike (NewMockMesh [[0, 0, 0], [1, 0, 0]] [[0, 0, 1], [0, 0, 1]])"
  let ?m2 = "MeshLike (NewMockMesh [[0, 1, 0], [1, 1, 0]] [[0, 0, 1], [0, 0, 1]])"
  have a: "PosInf = PosInf \<or> (\<exists>h. PosInf = Num h)" by simp
  have b: "Num 10 = PosInf \<or> (\<exists>h. Num 10 = Num h)" by simp
  have 1: "LiangWuNoblesseGF_Evaluate ?m1 ?m2 PosInf PosInf (Num 1, Num 0) True True
             = Err domainConstraintError"
    using LiangWuNoblesseGF_domain_constraint [OF a, of ?m1 ?m2 PosInf "(Num 1, Num 0)" True True]
    by simp
  have 2: "LiangWuNoblesseGF_Evaluate ?m1 ?m2 (Num 0) (Num 10) (Num 1, Num 0) True True
             = Err domainConstraintError"
    using LiangWuNoblesseGF_domain_constraint [OF b, of ?m1 ?m2 "Num 0" "(Num 1, Num 0)" True True]
    by simp
  have 3: "LiangWuNoblesseGF_Evaluate ?m1 ?m2 (Num 0) PosInf (Num 1, Num 0) True True
     = Ok (\<lparr>c_rows = 2, c_cols = 2, c_data = replicate 4 czero\<rparr>,
           \<lparr>c_rows = 2, c_cols = 2, c_data = replicate 4 czero\<rparr>)"
    using LiangWuNoblesseGF_domain_constraint [OF a, of ?m1 ?m2 "Num 0" "(Num 1, Num 0)" True True]
    by (simp add: getColocationPointsAndNormals_def bind_def
        dimensions_and_init_def initMatrices_def NewCDense_def NewMockMesh_def Let_def)
  from 1 2 3 show ?thesis by simp
qed

section \<open>Properties of the dispersion roots\<close>

lemma roots_loop_eq:
  "roots_loop h n roots =
     roots @ map (\<lambda>m. complex_of (Num 0) (fdiv (fmul (Num (real m)) (Num pi)) h)) [n..<11]"
proof (induction h n roots rule: roots_loop.induct)
  case (1 h n roots)
  show ?case
  proof (cases "n \<le> 10")
    case True
    then have "[n..<11] = n # [n + 1..<11]" by (simp add: upt_rec)
    with True "1" show ?thesis by (subst roots_loop.simps) (simp add: Let_def)
  next
    case False
    then show ?thesis by (subst roots_loop.simps) simp
  qed
qed

lemma evanescent_root:
  "h \<noteq> 0 \<Longrightarrow>
     complex_of (Num 0) (fdiv (fmul (Num (real n)) (Num pi)) (Num h)) =
       c128 (\<i> * of_real (real n * pi / h))"
  by (simp add: complex_of_def c128_def)

lemma upt_1_11: "[Suc 0..<11] = [1, 2, 3, 4, 5, 6, 7, 8, 9, 10 :: nat]"
  by code_simp

text \<open>
  C8. The root family that \<^verbatim>\<open>FinGreen3D\<close> computes from a wave number \<open>k0\<close> is \<open>[k0]\<close> at
  infinite depth; at a finite depth \<open>h\<close> it is \<open>k0\<close> followed by exactly the ten
  evanescent roots \<open>i n \<pi> / h\<close> for \<open>n = 1, \<dots>, 10\<close>, in this order. (At \<open>h = 0\<close> the
  quotient \<open>n \<pi> / h\<close> of the code is \<open>+\<infinity>\<close>, and the ten roots are \<open>i \<infinity>\<close>.)
\<close>

theorem computeDispersionRoots_family:
  "computeDispersionRoots (fg\<lparr>waterDepth := PosInf\<rparr>) k0 = Ok [k0]
   \<and> (h \<noteq> 0 \<longrightarrow>
        computeDispersionRoots (fg\<lparr>waterDepth := Num h\<rparr>) k0 =
          Ok (k0 # map (\<lambda>n. c128 (\<i> * of_real (real n * pi / h))) [1..<11]))
   \<and> computeDispersionRoots (fg\<lparr>waterDepth := Num 0\<rparr>) k0 = Ok (k0 # replicate 10 (Num 0, PosInf))"
proof (intro conjI impI)
  show "computeDispersionRoots (fg\<lparr>waterDepth := PosInf\<rparr>) k0 = Ok [k0]"
    by (simp add: computeDispersionRoots_def IsInf_def)
next
  assume h: "h \<noteq> 0"
  have "computeDispersionRoots (fg\<lparr>waterDepth := Num h\<rparr>) k0 = Ok (roots_loop (Num h) 1 [k0])"
    by (simp add: computeDispersionRoots_def IsInf_def)
  also have "roots_loop (Num h) 1 [k0] =
      k0 # map (\<lambda>n. c128 (\<i> * of_real (real n * pi / h))) [1..<11]"
    unfolding roots_loop_eq by (simp only: evanescent_root [OF h] append_Cons append_Nil)
  finally show "computeDispersionRoots (fg\<lparr>waterDepth := Num h\<rparr>) k0 =
      Ok (k0 # map (\<lambda>n. c128 (\<i> * of_real (real n * pi / h))) [1..<11])" .
next
  have "computeDispersionRoots (fg\<lparr>waterDepth := Num 0\<rparr>) k0 = Ok (roots_loop (Num 0) 1 [k0])"
    by (simp add: computeDispersionRoots_def IsInf_def)
  also have "roots_loop (Num 0) 1 [k0] =
      k0 # map (\<lambda>n. complex_of (Num 0) (fdiv (fmul (Num (real n)) (Num pi)) (Num 0))) [1..<11]"
    unfolding roots_loop_eq by (simp only: append_Cons append_Nil)
  also have "map (\<lambda>n. complex_of (Num 0) (fdiv (fmul (Num (real n)) (Num pi)) (Num 0))) [1..<11]
      = map (\<lambda>n. (Num 0, PosInf)) [1..<11]"
    by (rule map_cong [OF refl]) (auto simp add: complex_of_def inf_of_sign_def)
  also have "\<dots> = replicate 10 (Num 0, PosInf)"
    by (simp only: map_replicate_const length_upt) simp
  finally show "computeDispersionRoots (fg\<lparr>waterDepth := Num 0\<rparr>) k0 =
      Ok (k0 # replicate 10 (Num 0, PosInf))" .
qed

theorem computeDispersionRoots_family_witness:
  "(10::real) \<noteq> 0 \<and>
   computeDispersionRoots \<lparr>waterDepth = PosInf, waveNumber = czero, dispersionRoots = []\<rparr> (Num 1, Num 0)
     = Ok [(Num 1, Num 0)] \<and>
   computeDispersionRoots \<lparr>waterDepth = Num 10, waveNumber = czero, dispersionRoots = []\<rparr> (Num 1, Num 0)
     = Ok [(Num 1, Num 0), (Num 0, Num (pi / 10)), (Num 0, Num (2 * pi / 10)),
           (Num 0, Num (3 * pi / 10)), (Num 0, Num (4 * pi / 10)), (Num 0, Num (5 * pi / 10)),
           (Num 0, Num (6 * pi / 10)), (Num 0, Num (7 * pi / 10)), (Num 0, Num (8 * pi / 10)),
           (Num 0, Num (9 * pi / 10)), (Num 0, Num (10 * pi / 10))]"
  using computeDispersionRoots_family
    [of "\<lparr>waterDepth = NaN, waveNumber = czero, dispersionRoots = []\<rparr>" "(Num 1, Num 0)" 10]
  by (simp add: c128_def upt_1_11 del: upt_Suc)

section \<open>Properties of the tabulation cache\<close>

lemma findIndex_loop_result:
  "findIndex_loop arr val n = - 1 \<and> (\<forall>m. n \<le> m \<and> m + 1 < length arr \<longrightarrow> \<not> bracket arr val m)
   \<or> (\<exists>i. findIndex_loop arr val n = int i \<and> n \<le> i \<and> i + 1 < length arr \<and> bracket arr val i
          \<and> (\<forall>m. n \<le> m \<and> m < i \<longrightarrow> \<not> bracket arr val m))"
proof (induction arr val n rule: findIndex_loop.induct)
  case (1 arr val i)
  show ?case
  proof (cases "int i < int (length arr) - 1")
    case False
    then have "findIndex_loop arr val i = - 1" by (subst findIndex_loop.simps) simp
    moreover from False have "\<forall>m. i \<le> m \<and> m + 1 < length arr \<longrightarrow> \<not> bracket arr val m" by auto
    ultimately show ?thesis by blast
  next
    case inb: True
    show ?thesis
    proof (cases "bracket arr val i")
      case True
      with inb have "findIndex_loop arr val i = int i"
        by (subst findIndex_loop.simps) (simp add: bracket_def)
      with inb True show ?thesis by auto
    next
      case False
      with inb have eq: "findIndex_loop arr val i = findIndex_loop arr val (i + 1)"
        by (subst findIndex_loop.simps) (auto simp add: bracket_def)
      from False inb have IH:
        "findIndex_loop arr val (i + 1) = - 1
           \<and> (\<forall>m. i + 1 \<le> m \<and> m + 1 < length arr \<longrightarrow> \<not> bracket arr val m)
         \<or> (\<exists>k. findIndex_loop arr val (i + 1) = int k \<and> i + 1 \<le> k \<and> k + 1 < length arr
              \<and> bracket arr val k \<and> (\<forall>m. i + 1 \<le> m \<and> m < k \<longrightarrow> \<not> bracket arr val m))"
        using "1.IH" by (simp add: bracket_def)
      have step: "\<And>m. i \<le> m \<Longrightarrow> m = i \<or> i + 1 \<le> m" by auto
      from IH show ?thesis
      proof
        assume a: "findIndex_loop arr val (i + 1) = - 1
           \<and> (\<forall>m. i + 1 \<le> m \<and> m + 1 < length arr \<longrightarrow> \<not> bracket arr val m)"
        then have "\<forall>m. i \<le> m \<and> m + 1 < length arr \<longrightarrow> \<not> bracket arr val m"
          using False step by blast
        with a eq show ?thesis by simp
      next
        assume "\<exists>k. findIndex_loop arr val (i + 1) = int k \<and> i + 1 \<le> k \<and> k + 1 < length arr
              \<and> bracket arr val k \<and> (\<forall>m. i + 1 \<le> m \<and> m < k \<longrightarrow> \<not> bracket arr val m)"
        then obtain k where k: "findIndex_loop arr val (i + 1) = int k" "i + 1 \<le> k"
          "k + 1 < length arr" "bracket arr val k"
          "\<forall>m. i + 1 \<le> m \<and> m < k \<longrightarrow> \<not> bracket arr val m" by blast
        from k(5) False step have "\<forall>m. i \<le> m \<and> m < k \<longrightarrow> \<not> bracket arr val m" by blast
        with k eq have "findIndex_loop arr val i = int k \<and> i \<le> k \<and> k + 1 < length arr
          \<and> bracket arr val k \<and> (\<forall>m. i \<le> m \<and> m < k \<longrightarrow> \<not> bracket arr val m)" by simp
        then show ?thesis by blast
      qed
    qed
  qed
qed

lemma findIndex_result:
  "findIndex arr val = - 1 \<and> (\<forall>m. m + 1 < length arr \<longrightarrow> \<not> bracket arr val m)
   \<or> (\<exists>i. findIndex arr val = int i \<and> i + 1 < length arr \<and> bracket arr val i
          \<and> (\<forall>m. m < i \<longrightarrow> \<not> bracket arr val m))"
  using findIndex_loop_result [of arr val 0] by (simp add: findIndex_def)

lemma findIndex_range:
  "findIndex arr val = - 1 \<or> (0 \<le> findIndex arr val \<and> findIndex arr val < int (length arr) - 1)"
  using findIndex_result [of arr val] by auto

lemma index_Ok: "i < length xs \<Longrightarrow> index xs (int i) = Ok (xs ! i)"
  by (simp add: index_def)

lemma index_Ok_Suc: "Suc i < length xs \<Longrightarrow> index xs (int i + 1) = Ok (xs ! Suc i)"
  using index_Ok [of "Suc i" xs] by (simp add: add.commute)

lemma grid_row: "grid_shape tc \<Longrightarrow> j < length (ZRange tc) \<Longrightarrow> length (Values tc ! j) = length (RRange tc)"
  by (simp add: grid_shape_def list_all_length)

lemma Interpolate_at:
  assumes valid: "IsValid tc" and shape: "grid_shape tc"
    and ri: "findIndex (RRange tc) r = int i" and zi: "findIndex (ZRange tc) z = int j"
  shows "Interpolate tc r z =
    Ok (blend (RRange tc ! i) (RRange tc ! Suc i) (ZRange tc ! j) (ZRange tc ! Suc j)
          (Values tc ! j ! i) (Values tc ! Suc j ! i)
          (Values tc ! j ! Suc i) (Values tc ! Suc j ! Suc i) r z)"
proof -
  from findIndex_range [of "RRange tc" r] ri have i: "Suc i < length (RRange tc)" by auto
  from findIndex_range [of "ZRange tc" z] zi have j: "Suc j < length (ZRange tc)" by auto
  from shape j have lv: "Suc j < length (Values tc)" by (simp add: grid_shape_def)
  from grid_row [OF shape, of j] j i have r0: "Suc i < length (Values tc ! j)" by simp
  from grid_row [OF shape, of "Suc j"] j i have r1: "Suc i < length (Values tc ! Suc j)" by simp
  have guard: "\<not> (int i < 0 \<or> int i \<ge> int (length (RRange tc)) - 1
               \<or> int j < 0 \<or> int j \<ge> int (length (ZRange tc)) - 1)"
    using i j by auto
  have ix: "index (RRange tc) (int i) = Ok (RRange tc ! i)"
    "index (RRange tc) (int i + 1) = Ok (RRange tc ! Suc i)"
    "index (ZRange tc) (int j) = Ok (ZRange tc ! j)"
    "index (ZRange tc) (int j + 1) = Ok (ZRange tc ! Suc j)"
    "index (Values tc) (int j) = Ok (Values tc ! j)"
    "index (Values tc) (int j + 1) = Ok (Values tc ! Suc j)"
    "index (Values tc ! j) (int i) = Ok (Values tc ! j ! i)"
    "index (Values tc ! j) (int i + 1) = Ok (Values tc ! j ! Suc i)"
    "index (Values tc ! Suc j) (int i) = Ok (Values tc ! Suc j ! i)"
    "index (Values tc ! Suc j) (int i + 1) = Ok (Values tc ! Suc j ! Suc i)"
    using i j lv r0 r1 by (simp_all add: index_Ok index_Ok_Suc)
  have "Interpolate tc r z =
      bind (index (RRange tc) (int i)) (\<lambda>r1.
      bind (index (RRange tc) (int i + 1)) (\<lambda>r2.
      bind (index (ZRange tc) (int j)) (\<lambda>z1.
      bind (index (ZRange tc) (int j + 1)) (\<lambda>z2.
      bind (bind (index (Values tc) (int j)) (\<lambda>row. index row (int i))) (\<lambda>v11.
      bind (bind (index (Values tc) (int j + 1)) (\<lambda>row. index row (int i))) (\<lambda>v12.
      bind (bind (index (Values tc) (int j)) (\<lambda>row. index row (int i + 1))) (\<lambda>v21.
      bind (bind (index (Values tc) (int j + 1)) (\<lambda>row. index row (int i + 1))) (\<lambda>v22.
        Ok (blend r1 r2 z1 z2 v11 v12 v21 v22 r z)))))))))"
    unfolding Interpolate_def ri zi blend_def Let_def using valid guard by (simp only: if_False if_True not_not not_True_eq_False)
  also have "\<dots> = Ok (blend (RRange tc ! i) (RRange tc ! Suc i) (ZRange tc ! j) (ZRange tc ! Suc j)
          (Values tc ! j ! i) (Values tc ! Suc j ! i)
          (Values tc ! j ! Suc i) (Values tc ! Suc j ! Suc i) r z)"
    by (simp only: ix bind_def result.case)
  finally show ?thesis .
qed

lemma findIndex_test_r: "findIndex [Num 0, Num 1, Num 2] (Num (1 / 2)) = 0"
  by (simp add: findIndex_def findIndex_loop.simps fge_def fle_def feq_def)

lemma findIndex_test_z: "findIndex [Num (- 2), Num (- 1), Num 0] (Num (- (3 / 2))) = 0"
  unfolding findIndex_def by (subst findIndex_loop.simps) (simp add: fge_def fle_def feq_def)

text \<open>
  C6. \<^verbatim>\<open>Interpolate\<close> returns an error whenever the cache is not marked valid. On a
  valid cache (whose value grid has the shape of its ranges) it returns an error exactly
  when \<^verbatim>\<open>findIndex\<close> gives \<open>-1\<close> or the last index for \<open>r\<close> or for \<open>z\<close>, and in every
  other case it returns a value.
\<close>

theorem Interpolate_errors:
  "(\<not> IsValid tc \<longrightarrow> is_err (Interpolate tc r z))
   \<and> (IsValid tc \<and> grid_shape tc \<longrightarrow>
        (is_err (Interpolate tc r z) \<longleftrightarrow>
           findIndex (RRange tc) r = - 1 \<or> findIndex (RRange tc) r = int (length (RRange tc)) - 1
           \<or> findIndex (ZRange tc) z = - 1 \<or> findIndex (ZRange tc) z = int (length (ZRange tc)) - 1)
        \<and> (\<not> is_err (Interpolate tc r z) \<longrightarrow> (\<exists>v. Interpolate tc r z = Ok v)))"
proof (intro conjI impI)
  assume "\<not> IsValid tc"
  then show "is_err (Interpolate tc r z)" by (simp add: Interpolate_def is_err_def)
next
  assume a: "IsValid tc \<and> grid_shape tc"
  define ri where "ri = findIndex (RRange tc) r"
  define zi where "zi = findIndex (ZRange tc) z"
  let ?bad = "ri = - 1 \<or> ri = int (length (RRange tc)) - 1
           \<or> zi = - 1 \<or> zi = int (length (ZRange tc)) - 1"
  have rng: "ri = - 1 \<or> (0 \<le> ri \<and> ri < int (length (RRange tc)) - 1)"
    "zi = - 1 \<or> (0 \<le> zi \<and> zi < int (length (ZRange tc)) - 1)"
    unfolding ri_def zi_def by (rule findIndex_range)+
  have dich: "(?bad \<and> is_err (Interpolate tc r z))
      \<or> (\<not> ?bad \<and> (\<exists>v. Interpolate tc r z = Ok v))"
  proof (cases ?bad)
    case True
    then have "ri < 0 \<or> ri \<ge> int (length (RRange tc)) - 1
               \<or> zi < 0 \<or> zi \<ge> int (length (ZRange tc)) - 1"
      by linarith
    with a have "is_err (Interpolate tc r z)"
      unfolding ri_def zi_def by (simp add: Interpolate_def Let_def is_err_def)
    with True show ?thesis by blast
  next
    case False
    with rng have "0 \<le> ri" "0 \<le> zi" by auto
    then have "findIndex (RRange tc) r = int (nat ri)" "findIndex (ZRange tc) z = int (nat zi)"
      by (simp_all add: ri_def zi_def)
    from Interpolate_at [OF _ _ this] a False show ?thesis by blast
  qed
  from dich show "is_err (Interpolate tc r z) \<longleftrightarrow> ?bad" by (auto simp add: is_err_def)
  from dich show "\<exists>v. Interpolate tc r z = Ok v" if "\<not> is_err (Interpolate tc r z)"
    using that by blast
qed

theorem Interpolate_errors_witness:
  "is_err (Interpolate (NewTabulationCache [Num 0, Num 1, Num 2] [Num (- 2), Num (- 1), Num 0] ''float64'')
      (Num (1 / 2)) (Num (- (3 / 2))))
   \<and> is_err (Interpolate testCache (Num 5) (Num (- (3 / 2))))
   \<and> is_err (Interpolate testCache (Num (1 / 2)) (Num 5))
   \<and> \<not> is_err (Interpolate testCache (Num (1 / 2)) (Num (- (3 / 2))))"
proof -
  have r5: "findIndex [Num 0, Num 1, Num 2] (Num 5) = - 1"
    by (simp add: findIndex_def findIndex_loop.simps fge_def fle_def feq_def)
  have z5: "findIndex [Num (- 2), Num (- 1), Num 0] (Num 5) = - 1"
    by (simp add: findIndex_def findIndex_loop.simps fge_def fle_def feq_def)
  have v: "IsValid testCache \<and> grid_shape testCache"
    by (simp add: testCache_def NewTabulationCache_def grid_shape_def)
  have R: "RRange testCache = [Num 0, Num 1, Num 2]" and Z: "ZRange testCache = [Num (- 2), Num (- 1), Num 0]"
    by (simp_all add: testCache_def NewTabulationCache_def)
  have 1: "is_err (Interpolate (NewTabulationCache [Num 0, Num 1, Num 2] [Num (- 2), Num (- 1), Num 0] ''float64'')
      (Num (1 / 2)) (Num (- (3 / 2))))"
    using Interpolate_errors [of "NewTabulationCache [Num 0, Num 1, Num 2] [Num (- 2), Num (- 1), Num 0] ''float64''"
        "Num (1 / 2)" "Num (- (3 / 2))"]
    by (simp add: NewTabulationCache_def)
  have 2: "is_err (Interpolate testCache (Num 5) (Num (- (3 / 2))))"
    using Interpolate_errors [of testCache "Num 5" "Num (- (3 / 2))"] v by (simp add: R Z r5)
  have 3: "is_err (Interpolate testCache (Num (1 / 2)) (Num 5))"
    using Interpolate_errors [of testCache "Num (1 / 2)" "Num 5"] v by (simp add: R Z z5)
  have 4: "\<not> is_err (Interpolate testCache (Num (1 / 2)) (Num (- (3 / 2))))"
    using Interpolate_errors [of testCache "Num (1 / 2)" "Num (- (3 / 2))"] v
    by (simp add: R Z findIndex_test_r findIndex_test_z)
  from 1 2 3 4 show ?thesis by simp
qed

lemma bracket_Num:
  "Suc i < length rs \<Longrightarrow>
     bracket (map Num rs) (Num r) i \<longleftrightarrow> rs ! i \<le> r \<and> r \<le> rs ! Suc i"
  by (auto simp add: bracket_def fge_def fle_def feq_def)

text \<open>On a strictly increasing range of finite numbers with at least two entries,
  \<^verbatim>\<open>findIndex\<close> gives \<open>-1\<close> exactly for a coordinate outside \<open>[range[0], range[last]]\<close>.\<close>

lemma findIndex_outside_range:
  assumes inc: "sorted_wrt (<) rs" and len: "2 \<le> length rs"
  shows "findIndex (map Num rs) (Num v) = - 1 \<longleftrightarrow> v < rs ! 0 \<or> rs ! (length rs - 1) < v"
proof
  assume "findIndex (map Num rs) (Num v) = - 1"
  with findIndex_result [of "map Num rs" "Num v"]
  have nb: "\<forall>m. Suc m < length rs \<longrightarrow> \<not> (rs ! m \<le> v \<and> v \<le> rs ! Suc m)"
    by (auto simp add: bracket_Num)
  show "v < rs ! 0 \<or> rs ! (length rs - 1) < v"
  proof (rule ccontr)
    assume "\<not> (v < rs ! 0 \<or> rs ! (length rs - 1) < v)"
    then have lo: "rs ! 0 \<le> v" and hi: "v \<le> rs ! (length rs - 1)" by auto
    have "m < length rs \<Longrightarrow> rs ! m \<le> v" for m
    proof (induction m)
      case 0
      then show ?case using lo by simp
    next
      case (Suc m)
      then have "rs ! m \<le> v" by simp
      with nb Suc.prems show ?case by (meson not_le_imp_less less_imp_le)
    qed
    from this [of "length rs - 1"] len have "rs ! (length rs - 1) \<le> v" by simp
    moreover from nb [rule_format, of "length rs - 2"] len
    have "\<not> (rs ! (length rs - 2) \<le> v \<and> v \<le> rs ! (length rs - 1))"
      by (simp add: Suc_diff_Suc numeral_2_eq_2)
    moreover have "rs ! (length rs - 2) \<le> v"
      using \<open>\<And>m. m < length rs \<Longrightarrow> rs ! m \<le> v\<close> [of "length rs - 2"] len by simp
    ultimately show False using hi by simp
  qed
next
  assume out: "v < rs ! 0 \<or> rs ! (length rs - 1) < v"
  have mono: "a \<le> b \<Longrightarrow> b < length rs \<Longrightarrow> rs ! a \<le> rs ! b" for a b
    using inc by (cases "a = b") (auto simp add: sorted_wrt_nth_less less_imp_le)
  have "\<not> bracket (map Num rs) (Num v) m" if "Suc m < length rs" for m
  proof -
    from that have "rs ! 0 \<le> rs ! m" "rs ! Suc m \<le> rs ! (length rs - 1)"
      by (auto intro: mono)
    with out that show ?thesis by (auto simp add: bracket_Num)
  qed
  with findIndex_result [of "map Num rs" "Num v"] show "findIndex (map Num rs) (Num v) = - 1"
    by auto
qed

lemma fsub_Num [simp]: "fsub (Num a) (Num b) = Num (a - b)"
  by (simp add: fsub_def)

lemma cadd_c128: "cadd (c128 a) (c128 b) = c128 (a + b)"
  by (simp add: cadd_def c128_def)

lemma cmul_c128_real: "cmul (c128 a) (complex_of (Num x) (Num 0)) = c128 (a * of_real x)"
  by (simp add: cmul_def c128_def complex_of_def)

lemma blend_c128:
  assumes "r1 \<noteq> r2" "z1 \<noteq> z2"
  shows "blend (Num r1) (Num r2) (Num z1) (Num z2) (c128 v11) (c128 v12) (c128 v21) (c128 v22)
           (Num r) (Num z) =
         c128 (let fr = of_real ((r - r1) / (r2 - r1));
                   fz = of_real ((z - z1) / (z2 - z1));
                   v1 = v11 * (1 - fr) + v21 * fr;
                   v2 = v12 * (1 - fr) + v22 * fr
               in v1 * (1 - fz) + v2 * fz)"
  using assms by (simp add: blend_def Let_def cadd_c128 cmul_c128_real)

lemma Interpolate_at_finite:
  assumes "IsValid tc" and "grid_shape tc"
    and "findIndex (RRange tc) (Num r) = int i" and "findIndex (ZRange tc) (Num z) = int j"
    and "RRange tc ! i = Num r1" and "RRange tc ! Suc i = Num r2" and "r1 \<noteq> r2"
    and "ZRange tc ! j = Num z1" and "ZRange tc ! Suc j = Num z2" and "z1 \<noteq> z2"
    and "Values tc ! j ! i = c128 v11" and "Values tc ! j ! Suc i = c128 v21"
    and "Values tc ! Suc j ! i = c128 v12" and "Values tc ! Suc j ! Suc i = c128 v22"
  shows "Interpolate tc (Num r) (Num z) =
     Ok (c128 (let fr = of_real ((r - r1) / (r2 - r1));
                   fz = of_real ((z - z1) / (z2 - z1));
                   v1 = v11 * (1 - fr) + v21 * fr;
                   v2 = v12 * (1 - fr) + v22 * fr
               in v1 * (1 - fz) + v2 * fz))"
proof -
  note at = Interpolate_at [OF assms(1-4)]
  note eq = blend_c128 [OF assms(7) assms(10), of v11 v12 v21 v22 r z]
  from at show ?thesis
    unfolding assms(5,6,8,9,11-14) eq .
qed

lemma findIndex_first_bracket:
  assumes inc: "sorted_wrt (<) rs" and i: "Suc i < length rs"
    and lo: "rs ! i \<le> r" and hi: "r \<le> rs ! Suc i"
  obtains i' where "findIndex (map Num rs) (Num r) = int i'"
    and "i' = i \<or> (Suc i' = i \<and> r = rs ! i)"
proof -
  have bi: "bracket (map Num rs) (Num r) i" using i lo hi by (simp add: bracket_Num)
  from findIndex_result [of "map Num rs" "Num r"] bi i
  obtain i' where i': "findIndex (map Num rs) (Num r) = int i'" "Suc i' < length rs"
      "bracket (map Num rs) (Num r) i'" "\<forall>m. m < i' \<longrightarrow> \<not> bracket (map Num rs) (Num r) m"
    by auto
  from i'(4) bi have le: "i' \<le> i" by (meson not_less)
  from i'(2,3) have hi': "r \<le> rs ! Suc i'" by (simp add: bracket_Num)
  have "i' = i \<or> (Suc i' = i \<and> r = rs ! i)"
  proof (cases "i' = i")
    case True
    then show ?thesis by simp
  next
    case False
    with le have lt: "Suc i' \<le> i" by simp
    have "Suc i' = i"
    proof (rule ccontr)
      assume "Suc i' \<noteq> i"
      with lt have "Suc i' < i" by simp
      with inc i have "rs ! Suc i' < rs ! i" by (simp add: sorted_wrt_nth_less)
      with lo hi' show False by linarith
    qed
    moreover from this lo hi' have "r = rs ! i" by simp
    ultimately show ?thesis by simp
  qed
  with i'(1) that show ?thesis by blast
qed

text \<open>
  C7. On a valid cache with strictly increasing coordinate ranges and finite values, let
  \<open>(r1, r2)\<close> be neighbours of the \<open>r\<close> range with \<open>r1 \<le> r \<le> r2\<close> and \<open>(z1, z2)\<close>
  neighbours of the \<open>z\<close> range with \<open>z1 \<le> z \<le> z2\<close>. Then \<^verbatim>\<open>Interpolate\<close> returns
  \<open>v1 (1 - fz) + v2 fz\<close> with \<open>v1 = v11 (1 - fr) + v21 fr\<close>, \<open>v2 = v12 (1 - fr) + v22 fr\<close>,
  \<open>fr = (r - r1) / (r2 - r1)\<close> and \<open>fz = (z - z1) / (z2 - z1)\<close>, where \<open>v11\<close> is the value at
  \<open>(r1, z1)\<close>, \<open>v21\<close> at \<open>(r2, z1)\<close>, \<open>v12\<close> at \<open>(r1, z2)\<close> and \<open>v22\<close> at \<open>(r2, z2)\<close>, the
  grid being indexed \<open>[z][r]\<close>. (At a grid node two cells bracket the coordinate;
  \<^verbatim>\<open>findIndex\<close> takes the first, and both give the same blend.) At the midpoint of the
  unit cell with the corner values 1, 2, 3, 4 the result is their mean 5/2.
\<close>

theorem Interpolate_bilinear:
  assumes valid: "IsValid tc" and shape: "grid_shape tc"
    and R: "RRange tc = map Num rs" and Z: "ZRange tc = map Num zs"
    and V: "Values tc = map (map c128) vs"
    and incr: "sorted_wrt (<) rs" and incz: "sorted_wrt (<) zs"
    and i: "Suc i < length rs" and ri: "rs ! i \<le> r" "r \<le> rs ! Suc i"
    and j: "Suc j < length zs" and zj: "zs ! j \<le> z" "z \<le> zs ! Suc j"
  shows "Interpolate tc (Num r) (Num z) =
     Ok (c128 (let r1 = rs ! i; r2 = rs ! Suc i; z1 = zs ! j; z2 = zs ! Suc j;
                   fr = of_real ((r - r1) / (r2 - r1));
                   fz = of_real ((z - z1) / (z2 - z1));
                   v11 = vs ! j ! i; v21 = vs ! j ! Suc i;
                   v12 = vs ! Suc j ! i; v22 = vs ! Suc j ! Suc i;
                   v1 = v11 * (1 - fr) + v21 * fr;
                   v2 = v12 * (1 - fr) + v22 * fr
               in v1 * (1 - fz) + v2 * fz))"
proof -
  define fr where "fr a = (r - rs ! a) / (rs ! Suc a - rs ! a)" for a
  define fz where "fz b = (z - zs ! b) / (zs ! Suc b - zs ! b)" for b
  define L :: "nat \<Rightarrow> nat \<Rightarrow> complex" where
    "L a b = vs ! b ! a * (1 - of_real (fr a)) + vs ! b ! Suc a * of_real (fr a)" for a b
  define B :: "nat \<Rightarrow> nat \<Rightarrow> complex" where
    "B a b = L a b * (1 - of_real (fz b)) + L a (Suc b) * of_real (fz b)" for a b
  obtain i' where i': "findIndex (map Num rs) (Num r) = int i'"
      "i' = i \<or> (Suc i' = i \<and> r = rs ! i)"
    by (rule findIndex_first_bracket [OF incr i ri])
  obtain j' where j': "findIndex (map Num zs) (Num z) = int j'"
      "j' = j \<or> (Suc j' = j \<and> z = zs ! j)"
    by (rule findIndex_first_bracket [OF incz j zj])
  from i'(2) i have li: "Suc i' < length rs" by auto
  from j'(2) j have lj: "Suc j' < length zs" by auto
  have strict_r: "rs ! a < rs ! Suc a" if "Suc a < length rs" for a
    using incr that by (simp add: sorted_wrt_nth_less)
  have strict_z: "zs ! b < zs ! Suc b" if "Suc b < length zs" for b
    using incz that by (simp add: sorted_wrt_nth_less)
  from shape V Z have lv: "length vs = length zs" by (simp add: grid_shape_def)
  have lrow: "length (vs ! b) = length rs" if "b < length zs" for b
    using grid_row [OF shape, of b] that lv by (simp add: V R Z)
  have val: "Values tc ! b ! a = c128 (vs ! b ! a)" if "b < length zs" "a < length rs" for a b
    using that lv lrow [of b] by (simp add: V)
  have at: "Interpolate tc (Num r) (Num z) = Ok (c128 (B i' j'))"
  proof -
    have "Interpolate tc (Num r) (Num z) =
       Ok (c128 (let fr = of_real ((r - rs ! i') / (rs ! Suc i' - rs ! i'));
                     fz = of_real ((z - zs ! j') / (zs ! Suc j' - zs ! j'));
                     v1 = vs ! j' ! i' * (1 - fr) + vs ! j' ! Suc i' * fr;
                     v2 = vs ! Suc j' ! i' * (1 - fr) + vs ! Suc j' ! Suc i' * fr
                 in v1 * (1 - fz) + v2 * fz))"
    proof (rule Interpolate_at_finite [OF valid shape, where i = i' and j = j'])
      show "findIndex (RRange tc) (Num r) = int i'" using i'(1) by (simp add: R)
      show "findIndex (ZRange tc) (Num z) = int j'" using j'(1) by (simp add: Z)
      show "RRange tc ! i' = Num (rs ! i')" "RRange tc ! Suc i' = Num (rs ! Suc i')"
        using li by (simp_all add: R)
      show "ZRange tc ! j' = Num (zs ! j')" "ZRange tc ! Suc j' = Num (zs ! Suc j')"
        using lj by (simp_all add: Z)
      show "rs ! i' \<noteq> rs ! Suc i'" using strict_r [OF li] by simp
      show "zs ! j' \<noteq> zs ! Suc j'" using strict_z [OF lj] by simp
      show "Values tc ! j' ! i' = c128 (vs ! j' ! i')"
        "Values tc ! j' ! Suc i' = c128 (vs ! j' ! Suc i')"
        "Values tc ! Suc j' ! i' = c128 (vs ! Suc j' ! i')"
        "Values tc ! Suc j' ! Suc i' = c128 (vs ! Suc j' ! Suc i')"
        using li lj by (simp_all add: val)
    qed
    then show ?thesis by (simp add: B_def L_def fr_def fz_def Let_def)
  qed
  have Li: "L i' b = L i b" for b
  proof (cases "i' = i")
    case True
    then show ?thesis by simp
  next
    case False
    with i'(2) have s: "Suc i' = i" "r = rs ! i" by auto
    from strict_r [OF li] s have "fr i' = 1" by (simp add: fr_def)
    moreover from s have "fr i = 0" by (simp add: fr_def)
    ultimately show ?thesis using s(1) by (simp add: L_def)
  qed
  have Bj: "B a j' = B a j" for a
  proof (cases "j' = j")
    case True
    then show ?thesis by simp
  next
    case False
    with j'(2) have s: "Suc j' = j" "z = zs ! j" by auto
    from strict_z [OF lj] s have "fz j' = 1" by (simp add: fz_def)
    moreover from s have "fz j = 0" by (simp add: fz_def)
    ultimately show ?thesis using s(1) by (simp add: B_def)
  qed
  have "B i' j' = B i j'" by (simp add: B_def Li)
  also have "\<dots> = B i j" by (rule Bj)
  finally have "B i' j' = B i j" .
  with at show ?thesis by (simp add: B_def L_def fr_def fz_def Let_def)
qed

theorem Interpolate_bilinear_witness:
  "Interpolate testCache (Num (1 / 2)) (Num (- (3 / 2))) = Ok (c128 (5 / 2))
   \<and> Interpolate testCache (Num 1) (Num (- 1)) = Ok (c128 4)"
proof -
  have v: "IsValid testCache" and g: "grid_shape testCache"
    and R: "RRange testCache = map Num [0, 1, 2]" and Z: "ZRange testCache = map Num [- 2, - 1, 0]"
    and V: "Values testCache = map (map c128) [[1, 2, 0], [3, 4, 0], [0, 0, 0]]"
    by (simp_all add: testCache_def NewTabulationCache_def grid_shape_def czero_def c128_def)
  have sr: "sorted_wrt (<) [0, 1, 2 :: real]" and sz: "sorted_wrt (<) [- 2, - 1, 0 :: real]"
    by simp_all
  have 1: "Interpolate testCache (Num (1 / 2)) (Num (- (3 / 2))) = Ok (c128 (5 / 2))"
    using Interpolate_bilinear [OF v g R Z V sr sz, of 0 "1 / 2" 0 "- (3 / 2)"]
    by (simp add: Let_def)
  have 2: "Interpolate testCache (Num 1) (Num (- 1)) = Ok (c128 4)"
    using Interpolate_bilinear [OF v g R Z V sr sz, of 1 1 1 "- 1"]
    by (simp add: Let_def)
  from 1 2 show ?thesis by simp
qed

section \<open>Properties of the infinite-depth kernel\<close>

lemma fsqrt_sum_squares: "fsqrt (Num (a * a + b * b)) = Num (sqrt (a * a + b * b))"
proof -
  have "0 \<le> a * a + b * b" by simp
  then show ?thesis by (simp add: not_less)
qed

lemma RankineSource_Num: "RankineSource (Num r) = (if r = 0 then PosInf else Num (1 / r))"
  by (simp add: RankineSource_def feq_def)

lemma fdiv_one_Num: "fdiv (Num 1) (Num r) = RankineSource (Num r)"
  by (simp add: RankineSource_Num inf_of_sign_def)

lemma fadd_Rankine_zero: "fadd (fadd (RankineSource (Num a)) (RankineSource (Num b))) (Num 0)
    = fadd (RankineSource (Num a)) (RankineSource (Num b))"
  by (simp add: RankineSource_Num)

text \<open>
  C9. For finite arguments and a stored wave number of real part \<open>k\<close>, the infinite-depth
  kernel value of \<^verbatim>\<open>FinGreen3D\<close> is the Rankine part
  \<open>1 / \<surd>(r\<^sup>2 + (z\<^sub>f - z\<^sub>p)\<^sup>2) + 1 / \<surd>(r\<^sup>2 + (z\<^sub>f + z\<^sub>p)\<^sup>2)\<close>, where \<open>1 / 0\<close> is \<open>+\<infinity>\<close>, plus
  a wave part that is \<open>0\<close> when \<open>k = 0\<close>, the real number \<open>2 k exp(k (z\<^sub>f + z\<^sub>p))\<close> when
  \<open>k (z\<^sub>f + z\<^sub>p) > -10\<close>, and \<open>0\<close> otherwise; the imaginary part is \<open>0\<close>. Away from the two
  singular points the value is this finite real number.
\<close>

theorem computeInfiniteDepthGF_value:
  "computeInfiniteDepthGF (fg\<lparr>waveNumber := (Num k, ki)\<rparr>) (Num rr) (Num zf) (Num zp) =
     Ok (fadd (fadd (RankineSource (Num (sqrt (rr * rr + (zf - zp) * (zf - zp)))))
                    (RankineSource (Num (sqrt (rr * rr + (zf + zp) * (zf + zp))))))
              (Num (if k = 0 then 0
                    else if k * (zf + zp) > - 10 then 2 * k * exp (k * (zf + zp))
                    else 0)),
         Num 0)
   \<and> (0 < rr * rr + (zf - zp) * (zf - zp) \<and> 0 < rr * rr + (zf + zp) * (zf + zp) \<longrightarrow>
        computeInfiniteDepthGF (fg\<lparr>waveNumber := (Num k, ki)\<rparr>) (Num rr) (Num zf) (Num zp) =
          Ok (c128 (of_real
            (1 / sqrt (rr * rr + (zf - zp) * (zf - zp)) + 1 / sqrt (rr * rr + (zf + zp) * (zf + zp))
             + (if k = 0 then 0
                else if k * (zf + zp) > - 10 then 2 * k * exp (k * (zf + zp))
                else 0)))))"
proof -
  let ?R = "fadd (RankineSource (Num (sqrt (rr * rr + (zf - zp) * (zf - zp)))))
                 (RankineSource (Num (sqrt (rr * rr + (zf + zp) * (zf + zp)))))"
  let ?w = "if k = 0 then 0 else if k * (zf + zp) > - 10 then 2 * k * exp (k * (zf + zp)) else (0::real)"
  have imz: "fadd (Num 0) (Num 0) = Num 0" by simp
  have gen: "computeInfiniteDepthGF (fg\<lparr>waveNumber := (Num k, ki)\<rparr>) (Num rr) (Num zf) (Num zp)
      = Ok (fadd ?R (Num ?w), Num 0)"
  proof (cases "k = 0")
    case True
    then show ?thesis
      by (simp add: computeInfiniteDepthGF_def Let_def fsqrt_sum_squares fdiv_one_Num
          fadd_Rankine_zero real_part_def feq_def complex_of_def del: fsqrt.simps fdiv.simps)
  next
    case False
    then show ?thesis
      by (simp add: computeInfiniteDepthGF_def Let_def fsqrt_sum_squares fdiv_one_Num
          fadd_Rankine_zero real_part_def feq_def fgt_def complex_of_def cadd_def
          del: fsqrt.simps fdiv.simps)
  qed
  have fin: "fadd ?R (Num ?w) = Num (1 / sqrt (rr * rr + (zf - zp) * (zf - zp))
      + 1 / sqrt (rr * rr + (zf + zp) * (zf + zp)) + ?w)"
    if "0 < rr * rr + (zf - zp) * (zf - zp)" "0 < rr * rr + (zf + zp) * (zf + zp)"
    using that by (auto simp add: RankineSource_Num)
  show ?thesis
    using gen fin by (simp add: c128_def)
qed

theorem computeInfiniteDepthGF_value_witness:
  "(0::real) < 1 * 1 + (- 1 - - 2) * (- 1 - - 2) \<and> (0::real) < 1 * 1 + (- 1 + - 2) * (- 1 + - 2)
   \<and> computeInfiniteDepthGF \<lparr>waterDepth = PosInf, waveNumber = (Num 0, Num 0),
        dispersionRoots = [(Num 0, Num 0)]\<rparr> (Num 1) (Num (- 1)) (Num (- 2))
      = Ok (Num (1 / sqrt 2 + 1 / sqrt 10), Num 0)
   \<and> computeInfiniteDepthGF \<lparr>waterDepth = PosInf, waveNumber = (Num 1, Num 0),
        dispersionRoots = [(Num 1, Num 0)]\<rparr> (Num 1) (Num (- 1)) (Num (- 2))
      = Ok (Num (1 / sqrt 2 + 1 / sqrt 10 + 2 * exp (- 3)), Num 0)
   \<and> computeInfiniteDepthGF \<lparr>waterDepth = PosInf, waveNumber = (Num 1, Num 0),
        dispersionRoots = [(Num 1, Num 0)]\<rparr> (Num 0) (Num (- 1)) (Num (- 1))
      = Ok (PosInf, Num 0)"
  using computeInfiniteDepthGF_value
      [where fg = "\<lparr>waterDepth = PosInf, waveNumber = czero, dispersionRoots = [(Num 0, Num 0)]\<rparr>"
         and k = 0 and ki = "Num 0" and rr = 1 and zf = "- 1" and zp = "- 2"]
    computeInfiniteDepthGF_value
      [where fg = "\<lparr>waterDepth = PosInf, waveNumber = czero, dispersionRoots = [(Num 1, Num 0)]\<rparr>"
         and k = 1 and ki = "Num 0" and rr = 1 and zf = "- 1" and zp = "- 2"]
    computeInfiniteDepthGF_value
      [where fg = "\<lparr>waterDepth = PosInf, waveNumber = czero, dispersionRoots = [(Num 1, Num 0)]\<rparr>"
         and k = 1 and ki = "Num 0" and rr = 0 and zf = "- 1" and zp = "- 1"]
  by (simp add: c128_def RankineSource_Num)

section \<open>Properties of the dispersion solver\<close>

subsection \<open>Bounds on the hyperbolic tangent\<close>








subsection \<open>The Newton loop on finite numbers\<close>

lemma newton_loop_Num:
  "newton_loop (Num v) (Num h) i (Num k) =
     (if i < 100 then
        (if \<bar>spec_df h k\<bar> < 1 / 10 ^ 15 then (Num k, Degenerate)
         else if \<bar>spec_step v h k - k\<bar> < 1 / 10 ^ 12 then (Num k, Converged)
         else newton_loop (Num v) (Num h) (i + 1) (Num (spec_step v h k)))
      else (Num k, Exhausted))"
proof (cases "\<bar>spec_df h k\<bar> < 1 / 10 ^ 15")
  case True
  then show ?thesis
    by (subst newton_loop.simps) (simp add: Let_def spec_df_def power2_eq_square)
next
  case False
  then have nz: "tanh (k * h) + k * h * (1 - tanh (k * h) * tanh (k * h)) \<noteq> 0"
    by (auto simp add: spec_df_def power2_eq_square)
  from False show ?thesis
    by (subst newton_loop.simps)
      (simp add: Let_def nz spec_df_def spec_step_def spec_f_def power2_eq_square)
qed

lemma spec_iterate_Suc: "spec_iterate v h (Suc n) = spec_step v h (spec_iterate v h n)"
  by (simp add: spec_iterate_def)

lemma newton_loop_spec:
  "i \<le> 100 \<Longrightarrow>
   fst (newton_loop (Num v) (Num h) i (Num (spec_iterate v h i))) =
     Num (case find (\<lambda>n. spec_stop v h (spec_iterate v h n)) [i..<100] of
            Some n \<Rightarrow> spec_iterate v h n
          | None \<Rightarrow> spec_iterate v h 100)"
proof (induction "100 - i" arbitrary: i)
  case 0
  then have "i = 100" by simp
  then show ?case by (subst newton_loop_Num) simp
next
  case (Suc m)
  then have lt: "i < 100" and m: "m = 100 - Suc i" and le: "Suc i \<le> 100" by auto
  from lt have upt: "[i..<100] = i # [Suc i..<100]" by (simp add: upt_rec)
  show ?case
  proof (cases "spec_stop v h (spec_iterate v h i)")
    case True
    then show ?thesis
      unfolding upt by (subst newton_loop_Num) (auto simp add: lt spec_stop_def)
  next
    case False
    then have "newton_loop (Num v) (Num h) i (Num (spec_iterate v h i)) =
        newton_loop (Num v) (Num h) (Suc i) (Num (spec_iterate v h (Suc i)))"
      by (subst newton_loop_Num) (simp add: lt spec_stop_def spec_iterate_Suc)
    with Suc.hyps(1) [OF m le] False show ?thesis
      unfolding upt by simp
  qed
qed

lemma newton_loop_spec_root:
  "fst (newton_loop (Num v) (Num h) 0 (Num v)) = Num (spec_root v h)"
proof -
  have "spec_iterate v h 0 = v" by (simp add: spec_iterate_def)
  with newton_loop_spec [of 0 v h] show ?thesis by (simp add: spec_root_def)
qed

text \<open>
  C4. At a finite depth \<^verbatim>\<open>ComputeWaveNumber\<close> is the Newton-Raphson scheme of the
  specification: from \<open>k\<^sub>0 = v = \<omega>\<^sup>2 / g\<close> it steps by \<open>k - f(k) / f'(k)\<close>, at most 100
  times, and stops early at the first iterate \<open>k\<close> with \<open>|f'(k)| < 10\<^sup>-\<^sup>1\<^sup>5\<close> or with a next
  step smaller than \<open>10\<^sup>-\<^sup>1\<^sup>2\<close>. The value returned is the iterate at which it stops
  (after a converged stop, the \<open>k\<close> whose next step is that small), with imaginary
  part \<open>0\<close>.
\<close>

theorem ComputeWaveNumber_newton_scheme:
  "ComputeWaveNumber (Num omega) (Num h) =
     c128 (of_real (spec_root (omega * omega / (981 / 100)) h))"
proof -
  define v where "v = omega * omega / (981 / 100)"
  have "ComputeWaveNumber (Num omega) (Num h) =
      complex_of (fst (newton_loop (Num v) (Num h) 0 (Num v))) (Num 0)"
    by (simp add: ComputeWaveNumber_def IsInf_def Gravity_def Let_def v_def)
  also have "\<dots> = c128 (of_real (spec_root v h))"
    by (simp add: newton_loop_spec_root complex_of_def c128_def)
  finally show ?thesis by (simp only: v_def)
qed





subsection \<open>Convergence where the dispersion function is concave\<close>






















end
